theory Spec2Isabelle
  imports Complex_Main "HOL-Library.Product_Lexorder" "HOL-Library.Sublist"
begin

section \<open>Data model\<close>

text \<open>
  The detectors of \<^verbatim>\<open>src/support_resistance.py\<close> and \<^verbatim>\<open>src/trend_detector.py\<close> work on a
  pandas DataFrame of OHLCV bars.  A row is a \<open>bar\<close>: its index label (\<^verbatim>\<open>df.index[i]\<close>), the
  \<^verbatim>\<open>datetime\<close> column that every caller in the repository supplies, and the price columns.
  Python floats are idealised as real numbers, timestamps and index labels as integers.
  A frame is its rows together with the further float columns that have been assigned to
  it (\<^verbatim>\<open>df['ema_3'] = ...\<close>), kept as a map from the column name to the column.
\<close>

record bar =
  idx :: int
  datetime :: int
  open_price :: real
  high :: real
  low :: real
  close :: real
  volume :: real

record frame =
  rows :: "bar list"
  extra :: "string \<rightharpoonup> real list"

text \<open>\<^verbatim>\<open>SimpleSRDetector.__init__\<close>: the four settings of a detector, and their defaults.\<close>

record SimpleSRDetector =
  lookback_bars :: int
  min_touches :: int
  cluster_threshold_atr :: real
  include_round_numbers :: bool

definition default_detector :: SimpleSRDetector where
  "default_detector =
     \<lparr>lookback_bars = 100, min_touches = 2, cluster_threshold_atr = 1 / 2,
      include_round_numbers = True\<rparr>"

text \<open>The dataclass \<^verbatim>\<open>SimpleSRLevel\<close>; \<^verbatim>\<open>type\<close> is the string 'support' or 'resistance'.\<close>

record SimpleSRLevel =
  price :: real
  level_type :: string
  touches :: int
  first_seen :: "int option"
  last_seen :: "int option"
  is_round_number :: bool

text \<open>The dictionaries built by \<^verbatim>\<open>find_swing_points\<close> and by \<^verbatim>\<open>_merge_cluster\<close>.\<close>

record swing =
  sw_index :: nat
  sw_price :: real
  sw_date :: int

record merged =
  m_price :: real
  m_touches :: int
  m_first_seen :: "int option"
  m_last_seen :: "int option"

section \<open>Round numbers\<close>

text \<open>Python's \<^verbatim>\<open>int(x)\<close> on a float truncates towards zero.\<close>

definition py_int :: "real \<Rightarrow> int" where
  "py_int x = (if 0 \<le> x then \<lfloor>x\<rfloor> else \<lceil>x\<rceil>)"

text \<open>Lines 119-126 of \<^verbatim>\<open>find_round_numbers\<close>: the increment chosen from the top of the range.\<close>

definition increment_of :: "real \<Rightarrow> int" where
  "increment_of max_price =
     (if max_price > 10000 then 500
      else if max_price > 1000 then 50
      else if max_price > 100 then 5
      else 1)"

text \<open>
  The \<^verbatim>\<open>while current <= max_price\<close> loop (lines 132-137); \<open>round_numbers\<close> is the list
  being appended to.  The increment is the local variable set before the loop.
\<close>

function round_loop :: "real \<Rightarrow> real \<Rightarrow> int \<Rightarrow> int list \<Rightarrow> int list" where
  "round_loop min_price max_price current round_numbers =
     (if real_of_int current \<le> max_price then
        round_loop min_price max_price (current + increment_of max_price)
          (if min_price \<le> real_of_int current \<and> real_of_int current \<le> max_price
              \<and> current mod (increment_of max_price * 10) = 0
           then round_numbers @ [current] else round_numbers)
      else round_numbers)"
  by pat_completeness auto
termination
proof (relation "measure (\<lambda>(mn, mx, c, acc). nat (\<lfloor>mx\<rfloor> + 1 - c))")
  show "wf (measure (\<lambda>(mn, mx, c, acc). nat (\<lfloor>mx\<rfloor> + 1 - c)))" by simp
next
  fix min_price max_price :: real and current :: int and round_numbers :: "int list"
  assume le: "real_of_int current \<le> max_price"
  have "current \<le> \<lfloor>max_price\<rfloor>" using le by (simp add: le_floor_iff)
  moreover have "0 < increment_of max_price" by (simp add: increment_of_def)
  ultimately show
    "((min_price, max_price, current + increment_of max_price,
        if min_price \<le> real_of_int current \<and> real_of_int current \<le> max_price
            \<and> current mod (increment_of max_price * 10) = 0
        then round_numbers @ [current] else round_numbers),
      (min_price, max_price, current, round_numbers))
     \<in> measure (\<lambda>(mn, mx, c, acc). nat (\<lfloor>mx\<rfloor> + 1 - c))"
    by simp
qed

declare round_loop.simps [simp del]

definition find_round_numbers :: "SimpleSRDetector \<Rightarrow> real \<times> real \<Rightarrow> int list" where
  "find_round_numbers self price_range =
     (if \<not> include_round_numbers self then []
      else
        let min_price = fst price_range;
            max_price = snd price_range;
            increment = increment_of max_price;
            start = py_int (min_price / real_of_int increment) * increment
        in round_loop min_price max_price start [])"

section \<open>Touch counting\<close>

text \<open>
  \<^verbatim>\<open>count_touches\<close>: the two boolean columns are summed separately and the sums added
  (lines 186-192).
\<close>

definition count_touches :: "SimpleSRDetector \<Rightarrow> frame \<Rightarrow> real \<Rightarrow> real \<Rightarrow> int" where
  "count_touches self df level_price atr =
     (let threshold = atr * cluster_threshold_atr self;
          high_touches = length (filter (\<lambda>b. high b \<ge> level_price - threshold
                                              \<and> high b \<le> level_price + threshold) (rows df));
          low_touches = length (filter (\<lambda>b. low b \<ge> level_price - threshold
                                             \<and> low b \<le> level_price + threshold) (rows df))
      in int high_touches + int low_touches)"

section \<open>Volatility\<close>

text \<open>
  \<^verbatim>\<open>calculate_atr\<close>.  \<^verbatim>\<open>df['close'].shift(1)\<close> has no value in the first row, and the row-wise
  \<^verbatim>\<open>max\<close> skips the missing entries, so the first true range is \<open>high - low\<close>.  A missing
  float (NaN) is \<open>None\<close>.
\<close>

definition shift1 :: "real list \<Rightarrow> real option list" where
  "shift1 xs = (case xs of [] \<Rightarrow> [] | _ # _ \<Rightarrow> None # map Some (butlast xs))"

definition true_range :: "bar \<Rightarrow> real option \<Rightarrow> real" where
  "true_range b prev_close =
     (case prev_close of
        None \<Rightarrow> high b - low b
      | Some c \<Rightarrow> max (max (high b - low b) \<bar>high b - c\<bar>) \<bar>low b - c\<bar>)"

text \<open>\<^verbatim>\<open>rolling(window=period).mean()\<close>: undefined until \<open>period\<close> values are available.\<close>

definition rolling_mean :: "nat \<Rightarrow> real list \<Rightarrow> real option list" where
  "rolling_mean period xs =
     map (\<lambda>i. if i + 1 < period then None
               else Some (sum_list (take period (drop (i + 1 - period) xs)) / real period))
         [0..<length xs]"

definition calculate_atr :: "frame \<Rightarrow> nat \<Rightarrow> real option list" where
  "calculate_atr df period =
     (let tr = map2 true_range (rows df) (shift1 (map close (rows df)))
      in rolling_mean period tr)"

definition np_mean :: "real list \<Rightarrow> real" where
  "np_mean xs = sum_list xs / real (length xs)"

text \<open>\<^verbatim>\<open>Series.std()\<close>, the sample standard deviation, used only when the ATR is missing.\<close>

definition series_std :: "real list \<Rightarrow> real" where
  "series_std xs =
     sqrt (sum_list (map (\<lambda>x. (x - np_mean xs)\<^sup>2) xs) / (real (length xs) - 1))"

section \<open>Swing points\<close>

text \<open>
  \<^verbatim>\<open>Series.max()\<close> and \<^verbatim>\<open>Series.min()\<close> of an empty slice are NaN, and every comparison with
  NaN is false.
\<close>

definition series_max :: "real list \<Rightarrow> real option" where
  "series_max xs = (if xs = [] then None else Some (Max (set xs)))"

definition series_min :: "real list \<Rightarrow> real option" where
  "series_min xs = (if xs = [] then None else Some (Min (set xs)))"

definition gt_nan :: "real \<Rightarrow> real option \<Rightarrow> bool" where
  "gt_nan x m = (case m of None \<Rightarrow> False | Some y \<Rightarrow> x > y)"

definition lt_nan :: "real \<Rightarrow> real option \<Rightarrow> bool" where
  "lt_nan x m = (case m of None \<Rightarrow> False | Some y \<Rightarrow> x < y)"

text \<open>\<^verbatim>\<open>df.tail(n)\<close>: the last \<open>n\<close> rows; for a negative \<open>n\<close>, all rows but the first \<open>-n\<close>.\<close>

definition df_tail :: "int \<Rightarrow> 'a list \<Rightarrow> 'a list" where
  "df_tail n xs = (if 0 \<le> n then drop (length xs - nat n) xs else drop (nat (- n)) xs)"

text \<open>
  The body of the \<^verbatim>\<open>for i in range(5, len(recent_df) - 5)\<close> loop (lines 87-106).  After
  \<^verbatim>\<open>reset_index()\<close> the index of \<^verbatim>\<open>recent_df\<close> has no name, so the date of a swing is the
  row's \<^verbatim>\<open>datetime\<close>.
\<close>

definition swing_step :: "bar list \<Rightarrow> nat \<Rightarrow> swing list \<times> swing list \<Rightarrow> swing list \<times> swing list" where
  "swing_step recent_df i hl =
     (let highs = fst hl; lows = snd hl; b = recent_df ! i;
          highs' =
            (if gt_nan (high b) (series_max (map high (take 5 (drop (i - 5) recent_df))))
                \<and> gt_nan (high b) (series_max (map high (take 5 (drop (i + 1) recent_df))))
             then highs @ [\<lparr>sw_index = i, sw_price = high b, sw_date = datetime b\<rparr>]
             else highs);
          lows' =
            (if lt_nan (low b) (series_min (map low (take 5 (drop (i - 5) recent_df))))
                \<and> lt_nan (low b) (series_min (map low (take 5 (drop (i + 1) recent_df))))
             then lows @ [\<lparr>sw_index = i, sw_price = low b, sw_date = datetime b\<rparr>]
             else lows)
      in (highs', lows'))"

definition find_swing_points :: "SimpleSRDetector \<Rightarrow> frame \<Rightarrow> swing list \<times> swing list" where
  "find_swing_points self df =
     (if int (length (rows df)) < lookback_bars self then ([], [])
      else
        let recent_df = df_tail (lookback_bars self) (rows df)
        in foldl (\<lambda>hl i. swing_step recent_df i hl) ([], []) [5..<length recent_df - 5])"

section \<open>Clustering\<close>

definition merge_cluster :: "swing list \<Rightarrow> merged" where
  "merge_cluster cluster =
     (let avg_price = np_mean (map sw_price cluster);
          touches = int (length cluster);
          dates = map sw_date cluster
      in \<lparr>m_price = avg_price, m_touches = touches,
          m_first_seen = (if dates \<noteq> [] then Some (Min (set dates)) else None),
          m_last_seen = (if dates \<noteq> [] then Some (Max (set dates)) else None)\<rparr>)"

text \<open>
  The loop of \<^verbatim>\<open>cluster_levels\<close> (lines 152-160) over the sorted levels after the first;
  the state is the list of finished clusters and the cluster being filled.
\<close>

fun cluster_loop :: "real \<Rightarrow> swing list \<Rightarrow> merged list \<times> swing list \<Rightarrow> merged list \<times> swing list" where
  "cluster_loop cluster_threshold [] st = st"
| "cluster_loop cluster_threshold (level # rest) (clusters, current_cluster) =
     (let cluster_center = np_mean (map sw_price current_cluster)
      in if \<bar>sw_price level - cluster_center\<bar> \<le> cluster_threshold
         then cluster_loop cluster_threshold rest (clusters, current_cluster @ [level])
         else cluster_loop cluster_threshold rest
                (clusters @ [merge_cluster current_cluster], [level]))"

text \<open>
  \<^verbatim>\<open>cluster_levels\<close>: the levels are sorted by price (Python's \<^verbatim>\<open>sorted\<close> and \<open>sort_key\<close> are
  both stable); an empty input gives an empty sorted list and the empty result of line
  144.  The running centre is \<^verbatim>\<open>np.mean\<close> of the prices in the current cluster.
\<close>

definition cluster_levels :: "SimpleSRDetector \<Rightarrow> swing list \<Rightarrow> real \<Rightarrow> merged list" where
  "cluster_levels self levels atr =
     (case sort_key sw_price levels of
        [] \<Rightarrow> []
      | first # rest \<Rightarrow>
          let cluster_threshold = atr * cluster_threshold_atr self;
              st = cluster_loop cluster_threshold rest ([], [first]);
              clusters = fst st; current_cluster = snd st
          in if current_cluster \<noteq> [] then clusters @ [merge_cluster current_cluster]
             else clusters)"

text \<open>
  The number of clusters that the loop closes when it starts with the cluster
  \<open>current_cluster\<close> and walks through \<open>levels\<close>; used to count the result of
  \<^verbatim>\<open>cluster_levels\<close>.
\<close>

definition closed_clusters :: "real \<Rightarrow> swing list \<Rightarrow> swing list \<Rightarrow> nat" where
  "closed_clusters t current_cluster levels =
     length (fst (cluster_loop t levels ([], current_cluster)))"

section \<open>Level detection\<close>

text \<open>Python's slice \<^verbatim>\<open>xs[:n]\<close>; a negative \<open>n\<close> counts from the end.\<close>

definition py_take :: "int \<Rightarrow> 'a list \<Rightarrow> 'a list" where
  "py_take n xs = (if 0 \<le> n then take (nat n) xs else take (length xs - nat (- n)) xs)"

text \<open>Lines 229-254: clustered swing highs become resistance, clustered swing lows support.\<close>

definition level_of :: "string \<Rightarrow> merged \<Rightarrow> SimpleSRLevel" where
  "level_of ty level =
     \<lparr>price = m_price level, level_type = ty, touches = m_touches level,
      first_seen = m_first_seen level, last_seen = m_last_seen level,
      is_round_number = False\<rparr>"

definition swing_resistance :: "SimpleSRDetector \<Rightarrow> swing list \<Rightarrow> real \<Rightarrow> real \<Rightarrow> SimpleSRLevel list" where
  "swing_resistance self highs atr current_price =
     (if highs \<noteq> [] then
        map (level_of ''resistance'')
          (filter (\<lambda>level. m_price level > current_price \<and> m_touches level \<ge> min_touches self)
             (cluster_levels self highs atr))
      else [])"

definition swing_support :: "SimpleSRDetector \<Rightarrow> swing list \<Rightarrow> real \<Rightarrow> real \<Rightarrow> SimpleSRLevel list" where
  "swing_support self lows atr current_price =
     (if lows \<noteq> [] then
        map (level_of ''support'')
          (filter (\<lambda>level. m_price level < current_price \<and> m_touches level \<ge> min_touches self)
             (cluster_levels self lows atr))
      else [])"

text \<open>
  Lines 257-273, the loop over the round numbers.  \<open>round_level\<close> is the level built at
  lines 261-268, \<open>round_step\<close> one pass through the loop body on the pair
  \<open>(support_levels, resistance_levels)\<close>.
\<close>

definition round_level :: "frame \<Rightarrow> real \<Rightarrow> int \<Rightarrow> int \<Rightarrow> SimpleSRLevel" where
  "round_level df current_price round_price n =
     \<lparr>price = real_of_int round_price,
      level_type = (if real_of_int round_price > current_price then ''resistance'' else ''support''),
      touches = n,
      first_seen = Some (idx (hd (rows df))),
      last_seen = Some (idx (last (rows df))),
      is_round_number = True\<rparr>"

definition round_step ::
  "SimpleSRDetector \<Rightarrow> frame \<Rightarrow> real \<Rightarrow> real \<Rightarrow> int
     \<Rightarrow> SimpleSRLevel list \<times> SimpleSRLevel list \<Rightarrow> SimpleSRLevel list \<times> SimpleSRLevel list" where
  "round_step self df atr current_price round_price st =
     (let support_levels = fst st; resistance_levels = snd st;
          n = count_touches self df (real_of_int round_price) atr
      in if n \<ge> min_touches self then
           let level = round_level df current_price round_price n
           in if real_of_int round_price > current_price
              then (support_levels, resistance_levels @ [level])
              else (support_levels @ [level], resistance_levels)
         else (support_levels, resistance_levels))"

definition add_round_numbers ::
  "SimpleSRDetector \<Rightarrow> frame \<Rightarrow> real \<Rightarrow> real \<Rightarrow> int list
     \<Rightarrow> SimpleSRLevel list \<times> SimpleSRLevel list \<Rightarrow> SimpleSRLevel list \<times> SimpleSRLevel list" where
  "add_round_numbers self df atr current_price round_numbers st =
     foldl (\<lambda>st round_price. round_step self df atr current_price round_price st)
       st round_numbers"

text \<open>The volatility and the current price that \<^verbatim>\<open>detect_sr_levels\<close> computes (lines 207-213).\<close>

definition sr_atr :: "frame \<Rightarrow> real" where
  "sr_atr df =
     (case last (calculate_atr df 14) of
        None \<Rightarrow> series_std (map high (rows df))
      | Some a \<Rightarrow> a)"

definition current_close :: "frame \<Rightarrow> real" where
  "current_close df = close (last (rows df))"

text \<open>Lines 219-222: the round numbers of the price range widened by 5 percent.\<close>

definition sr_round_numbers :: "SimpleSRDetector \<Rightarrow> frame \<Rightarrow> int list" where
  "sr_round_numbers self df =
     (if include_round_numbers self then
        let price_range = (Min (set (map low (rows df))) * (95 / 100),
                           Max (set (map high (rows df))) * (105 / 100))
        in find_round_numbers self price_range
      else [])"

text \<open>
  The two lists as they stand at line 274, before they are sorted and cut: all the
  levels that the detector considers for each side.
\<close>

definition sr_candidates :: "SimpleSRDetector \<Rightarrow> frame \<Rightarrow> SimpleSRLevel list \<times> SimpleSRLevel list" where
  "sr_candidates self df =
     (let atr = sr_atr df;
          current_price = current_close df;
          hl = find_swing_points self df;
          highs = fst hl; lows = snd hl;
          round_numbers = sr_round_numbers self df;
          resistance_levels = swing_resistance self highs atr current_price;
          support_levels = swing_support self lows atr current_price
      in add_round_numbers self df atr current_price round_numbers
           (support_levels, resistance_levels))"

definition detect_sr_levels ::
  "SimpleSRDetector \<Rightarrow> frame \<Rightarrow> int \<Rightarrow> int \<Rightarrow> SimpleSRLevel list \<times> SimpleSRLevel list" where
  "detect_sr_levels self df max_support max_resistance =
     (if length (rows df) < 50 then ([], [])
      else
        let current_price = current_close df;
            cands = sr_candidates self df;
            resistance_levels =
              sort_key (\<lambda>x. (price x - current_price, - touches x)) (snd cands);
            support_levels =
              sort_key (\<lambda>x. (current_price - price x, - touches x)) (fst cands)
        in (py_take max_support support_levels, py_take max_resistance resistance_levels))"

text \<open>
  \<^verbatim>\<open>detect_sr_levels\<close> reads the frame (\<^verbatim>\<open>len\<close>, column reads, \<^verbatim>\<open>iloc\<close>, and
  \<^verbatim>\<open>tail(...).reset_index()\<close>, which builds a new frame) and has no assignment into it:
  a call returns the levels and leaves the caller's frame as it was.
\<close>

definition call_detect_sr_levels ::
  "SimpleSRDetector \<Rightarrow> frame \<Rightarrow> int \<Rightarrow> int
     \<Rightarrow> (SimpleSRLevel list \<times> SimpleSRLevel list) \<times> frame" where
  "call_detect_sr_levels self df max_support max_resistance =
     (detect_sr_levels self df max_support max_resistance, df)"

section \<open>Trend classification\<close>

text \<open>
  \<^verbatim>\<open>ewm(span=s, adjust=False).mean()\<close>: the first value is the first price, and each later
  value is \<open>(1 - \<alpha>) * previous + \<alpha> * price\<close> with \<open>\<alpha> = 2 / (s + 1)\<close>.
\<close>

fun ewm_rec :: "real \<Rightarrow> real \<Rightarrow> real list \<Rightarrow> real list" where
  "ewm_rec \<alpha> prev [] = []"
| "ewm_rec \<alpha> prev (x # xs) = ((1 - \<alpha>) * prev + \<alpha> * x) # ewm_rec \<alpha> ((1 - \<alpha>) * prev + \<alpha> * x) xs"

definition ewm_mean :: "real \<Rightarrow> real list \<Rightarrow> real list" where
  "ewm_mean span_n xs =
     (case xs of [] \<Rightarrow> [] | x # rest \<Rightarrow> x # ewm_rec (2 / (span_n + 1)) x rest)"

text \<open>Lines 39-41: the closes of the last five rows and the change across them, in percent.\<close>

definition recent_prices :: "frame \<Rightarrow> real list" where
  "recent_prices df = df_tail 5 (map close (rows df))"

definition price_change_pct :: "frame \<Rightarrow> real" where
  "price_change_pct df =
     (let price_trend = last (recent_prices df) - hd (recent_prices df)
      in (price_trend / hd (recent_prices df)) * 100)"

text \<open>
  Lines 43-64: the decision table on the latest close, the three averages and the
  momentum, and the cap of the strength at 100.  The divisions are by \<open>ema_20\<close>, which is
  positive for positive prices (numpy raises nothing on a zero divisor; that case lies
  outside the positive prices considered below).
\<close>

definition trend_decision :: "real \<Rightarrow> real \<Rightarrow> real \<Rightarrow> real \<Rightarrow> real \<Rightarrow> string \<times> real" where
  "trend_decision latest_close ema_3 ema_8 ema_20 pct =
     (let ts =
            (if latest_close < ema_3 \<and> ema_3 < ema_8 \<and> ema_8 < ema_20 \<and> pct < - 1
             then (''DOWNTREND'', \<bar>(ema_20 - latest_close) / ema_20\<bar> * 100)
             else if latest_close > ema_3 \<and> ema_3 > ema_8 \<and> ema_8 > ema_20 \<and> pct > 1
             then (''UPTREND'', ((latest_close - ema_20) / ema_20) * 100)
             else if latest_close < ema_8 \<and> latest_close < ema_20
             then (''DOWNTREND'', \<bar>(ema_20 - latest_close) / ema_20\<bar> * 100 * (7 / 10))
             else if latest_close > ema_8 \<and> latest_close > ema_20
             then (''UPTREND'', ((latest_close - ema_20) / ema_20) * 100 * (7 / 10))
             else (''SIDEWAYS'', \<bar>(latest_close - ema_20) / ema_20\<bar> * 100))
      in (fst ts, min (snd ts) 100))"

text \<open>
  \<^verbatim>\<open>calculate_simple_trend\<close> returns the label and the strength; the three column
  assignments of lines 27-29 change the caller's frame, which is returned beside them.
\<close>

definition calculate_simple_trend :: "frame \<Rightarrow> (string \<times> real) \<times> frame" where
  "calculate_simple_trend df =
     (if length (rows df) < 20 then ((''NEUTRAL'', 0), df)
      else
        let df1 = df\<lparr>extra := (extra df)(''ema_3'' \<mapsto> ewm_mean 3 (map close (rows df)))\<rparr>;
            df2 = df1\<lparr>extra := (extra df1)(''ema_8'' \<mapsto> ewm_mean 8 (map close (rows df1)))\<rparr>;
            df3 = df2\<lparr>extra := (extra df2)(''ema_20'' \<mapsto> ewm_mean 20 (map close (rows df2)))\<rparr>;
            latest_close = close (last (rows df3));
            ema_3 = last (the (extra df3 ''ema_3''));
            ema_8 = last (the (extra df3 ''ema_8''));
            ema_20 = last (the (extra df3 ''ema_20''))
        in (trend_decision latest_close ema_3 ema_8 ema_20 (price_change_pct df3), df3))"

section \<open>Example series\<close>

text \<open>Concrete bar series on which the detectors are run below.\<close>

definition mk_bar :: "nat \<Rightarrow> real \<Rightarrow> real \<Rightarrow> real \<Rightarrow> bar" where
  "mk_bar i h l c =
     \<lparr>idx = int i, datetime = int i, open_price = c, high = h, low = l, close = c, volume = 0\<rparr>"

definition series_of :: "real list \<Rightarrow> frame" where
  "series_of cs = \<lparr>rows = map (\<lambda>(i, c). mk_bar i c c c) (enumerate 0 cs), extra = Map.empty\<rparr>"

definition rising20 :: frame where
  "rising20 = series_of [1, 2, 3, 4, 5, 6, 7, 8, 9, 10, 11, 12, 13, 14, 15, 16, 17, 18, 19, 20]"

definition short10 :: frame where
  "short10 = series_of [1, 2, 3, 4, 5, 6, 7, 8, 9, 10]"

definition flat_frame :: frame where
  "flat_frame = series_of (replicate 50 100)"

definition one_bar :: frame where
  "one_bar = series_of [100]"

text \<open>
  A series of 100 bars with highs at 10 and lows at 9, two bars with the high at 12, and
  a last bar that closes at 20.
\<close>

definition swing_frame :: frame where
  "swing_frame =
     \<lparr>rows = map (\<lambda>i. if i = 20 \<or> i = 40 then mk_bar i 12 9 (19 / 2)
                       else if i = 99 then mk_bar i 20 9 20
                       else mk_bar i 10 9 (19 / 2)) [0..<100],
      extra = Map.empty\<rparr>"

definition three_levels :: "swing list" where
  "three_levels = [\<lparr>sw_index = 10, sw_price = 0, sw_date = 10\<rparr>,
                   \<lparr>sw_index = 20, sw_price = 1, sw_date = 20\<rparr>,
                   \<lparr>sw_index = 30, sw_price = 3, sw_date = 30\<rparr>]"

section \<open>Properties\<close>

lemma length_series_of: "length (rows (series_of cs)) = length cs"
  by (simp add: series_of_def)

subsection \<open>Too little data\<close>

text \<open>
  Claim C7.  For a series of fewer than 20 bars \<^verbatim>\<open>calculate_simple_trend\<close> returns
  ('NEUTRAL', 0.0), and for a series of fewer than 50 bars \<^verbatim>\<open>detect_sr_levels\<close> returns two
  empty lists.  Both are total functions here: the source reaches its \<^verbatim>\<open>return\<close> after the
  \<^verbatim>\<open>len(df)\<close> test alone, so nothing is raised, and the frame is left as it was.
\<close>

theorem insufficient_data:
  "(length (rows df) < 20 \<longrightarrow> calculate_simple_trend df = ((''NEUTRAL'', 0), df))
   \<and> (length (rows df) < 50 \<longrightarrow> detect_sr_levels self df max_support max_resistance = ([], []))"
  by (simp add: calculate_simple_trend_def detect_sr_levels_def)

theorem insufficient_data_witness:
  "length (rows short10) < 20
   \<and> calculate_simple_trend short10 = ((''NEUTRAL'', 0), short10)
   \<and> length (rows short10) < 50
   \<and> detect_sr_levels default_detector short10 3 3 = ([], [])"
  using insufficient_data [of short10 default_detector 3 3]
  by (simp add: length_series_of short10_def)

subsection \<open>Round numbers\<close>

lemma increment_of_pos: "0 < increment_of mx"
  by (simp add: increment_of_def)

text \<open>
  The loop keeps what it has collected in range, a multiple of ten increments, below
  the running value, and sorted.
\<close>

lemma round_loop_inv:
  "\<lbrakk>\<forall>p\<in>set acc. mn \<le> real_of_int p \<and> real_of_int p \<le> mx \<and> p mod (increment_of mx * 10) = 0 \<and> p < cur;
    sorted acc\<rbrakk>
   \<Longrightarrow> (\<forall>p\<in>set (round_loop mn mx cur acc).
          mn \<le> real_of_int p \<and> real_of_int p \<le> mx \<and> p mod (increment_of mx * 10) = 0)
       \<and> sorted (round_loop mn mx cur acc)"
proof (induction mn mx cur acc rule: round_loop.induct)
  case (1 mn mx cur acc)
  show ?case
  proof (cases "real_of_int cur \<le> mx")
    case False
    then have "round_loop mn mx cur acc = acc" by (simp add: round_loop.simps)
    with "1.prems" show ?thesis by auto
  next
    case True
    let ?acc' = "if mn \<le> real_of_int cur \<and> real_of_int cur \<le> mx
                    \<and> cur mod (increment_of mx * 10) = 0 then acc @ [cur] else acc"
    have step: "round_loop mn mx cur acc = round_loop mn mx (cur + increment_of mx) ?acc'"
      using True by (subst round_loop.simps) simp
    have a: "\<forall>p\<in>set ?acc'. mn \<le> real_of_int p \<and> real_of_int p \<le> mx
               \<and> p mod (increment_of mx * 10) = 0 \<and> p < cur + increment_of mx"
      using "1.prems"(1) increment_of_pos [of mx] by (auto split: if_splits)
    have b: "sorted ?acc'"
      using "1.prems" by (auto simp: sorted_append intro: less_imp_le)
    show ?thesis
      unfolding step using "1.IH" [OF True a b] .
  qed
qed

text \<open>
  Claim C9.  Every price that \<^verbatim>\<open>find_round_numbers\<close> emits lies in the given range and is a
  multiple of ten times the increment (500 above 10,000, 50 above 1,000, 5 above 100,
  otherwise 1, by the top of the range), and the list is sorted ascending.
\<close>

theorem find_round_numbers_sound:
  "(\<forall>p\<in>set (find_round_numbers self (min_price, max_price)).
      min_price \<le> real_of_int p \<and> real_of_int p \<le> max_price
      \<and> p mod (10 * (if max_price > 10000 then 500 else if max_price > 1000 then 50
                       else if max_price > 100 then 5 else 1)) = 0)
   \<and> sorted (find_round_numbers self (min_price, max_price))"
proof (cases "include_round_numbers self")
  case False
  then show ?thesis by (simp add: find_round_numbers_def)
next
  case True
  have inc: "(if max_price > 10000 then 500 else if max_price > 1000 then 50
              else if max_price > 100 then 5 else 1) = increment_of max_price"
    by (simp add: increment_of_def)
  have "(\<forall>p\<in>set (round_loop min_price max_price
                 (py_int (min_price / real_of_int (increment_of max_price)) * increment_of max_price) []).
          min_price \<le> real_of_int p \<and> real_of_int p \<le> max_price
          \<and> p mod (increment_of max_price * 10) = 0)
        \<and> sorted (round_loop min_price max_price
                 (py_int (min_price / real_of_int (increment_of max_price)) * increment_of max_price) [])"
    by (rule round_loop_inv) simp_all
  then show ?thesis
    using True unfolding inc by (simp add: find_round_numbers_def Let_def mult.commute)
qed

theorem find_round_numbers_sound_witness:
  "100 \<in> set (find_round_numbers default_detector (95, 105))
   \<and> (95::real) \<le> real_of_int 100 \<and> real_of_int 100 \<le> (105::real) \<and> (100::int) mod (10 * 5) = 0
   \<and> sorted (find_round_numbers default_detector (95, 105))"
proof -
  have m: "100 \<in> set (find_round_numbers default_detector (95, 105))" by code_simp
  show ?thesis
    using find_round_numbers_sound [of default_detector 95 105] m by simp
qed

subsection \<open>Touch counting\<close>

lemma length_filter_or_and:
  "length (filter P xs) + length (filter Q xs)
   = length (filter (\<lambda>x. P x \<or> Q x) xs) + length (filter (\<lambda>x. P x \<and> Q x) xs)"
  by (induction xs) auto

text \<open>
  Claim C4 as stated fails: a bar whose high and low are both inside the band is counted
  twice, so the count is not the number of bars with the high or the low in the band, and
  it can exceed the number of bars.  One bar with high = low = 100, level price 100 and
  volatility 0 gives the count 2.
\<close>

theorem count_touches_counterexample:
  "count_touches default_detector one_bar 100 0 = 2
   \<and> int (length (rows one_bar)) = 1
   \<and> \<not> count_touches default_detector one_bar 100 0 \<le> int (length (rows one_bar))"
  by (simp add: count_touches_def default_detector_def one_bar_def series_of_def enumerate_eq_zip mk_bar_def)

text \<open>
  Claim C4, amended.  With \<open>t = a * cluster_threshold_atr\<close>, \<^verbatim>\<open>count_touches\<close> returns the
  number of bars whose high is within \<open>[p - t, p + t]\<close> plus the number of bars whose low is:
  the number of bars with the high or the low in the band, plus the number of bars with
  both in the band.  The count never exceeds twice the number of bars.
\<close>

theorem count_touches_double:
  "count_touches self df p a
     = int (length (filter (\<lambda>b. (high b \<ge> p - a * cluster_threshold_atr self
                                   \<and> high b \<le> p + a * cluster_threshold_atr self)
                                \<or> (low b \<ge> p - a * cluster_threshold_atr self
                                   \<and> low b \<le> p + a * cluster_threshold_atr self)) (rows df)))
       + int (length (filter (\<lambda>b. (high b \<ge> p - a * cluster_threshold_atr self
                                   \<and> high b \<le> p + a * cluster_threshold_atr self)
                                \<and> (low b \<ge> p - a * cluster_threshold_atr self
                                   \<and> low b \<le> p + a * cluster_threshold_atr self)) (rows df)))
   \<and> count_touches self df p a \<le> 2 * int (length (rows df))"
proof -
  let ?H = "\<lambda>b. high b \<ge> p - a * cluster_threshold_atr self
                \<and> high b \<le> p + a * cluster_threshold_atr self"
  let ?L = "\<lambda>b. low b \<ge> p - a * cluster_threshold_atr self
                \<and> low b \<le> p + a * cluster_threshold_atr self"
  have c: "count_touches self df p a
             = int (length (filter ?H (rows df))) + int (length (filter ?L (rows df)))"
    by (simp add: count_touches_def Let_def)
  have "length (filter ?H (rows df)) + length (filter ?L (rows df))
          = length (filter (\<lambda>b. ?H b \<or> ?L b) (rows df))
            + length (filter (\<lambda>b. ?H b \<and> ?L b) (rows df))"
    by (rule length_filter_or_and)
  then have e: "int (length (filter ?H (rows df))) + int (length (filter ?L (rows df)))
          = int (length (filter (\<lambda>b. ?H b \<or> ?L b) (rows df)))
            + int (length (filter (\<lambda>b. ?H b \<and> ?L b) (rows df)))"
    by (simp only: flip: of_nat_add)
  have h: "length (filter ?H (rows df)) \<le> length (rows df)" by (rule length_filter_le)
  have l: "length (filter ?L (rows df)) \<le> length (rows df)" by (rule length_filter_le)
  show ?thesis using c e h l by linarith
qed

subsection \<open>Short-term momentum\<close>

lemma recent_prices_last5:
  assumes "5 \<le> length (rows df)"
  shows "last (recent_prices df) = close (rows df ! (length (rows df) - 1))"
    and "hd (recent_prices df) = close (rows df ! (length (rows df) - 5))"
proof -
  let ?n = "length (rows df)"
  have rp: "recent_prices df = drop (?n - 5) (map close (rows df))"
    by (simp add: recent_prices_def df_tail_def)
  show "last (recent_prices df) = close (rows df ! (?n - 1))"
    using assms by (simp add: rp last_drop last_map last_conv_nth)
  show "hd (recent_prices df) = close (rows df ! (?n - 5))"
    using assms by (simp add: rp hd_drop_conv_nth)
qed

text \<open>
  Claim C3 as stated fails: \<^verbatim>\<open>df['close'].tail(5)\<close> holds the last five closes, so its first
  entry is the close four bars before the last one, not five.  On the 20 closes
  1, 2, ..., 20 the code's momentum differs from the change measured from close[last - 5].
\<close>

theorem momentum_counterexample:
  "20 \<le> length (rows rising20)
   \<and> price_change_pct rising20
       \<noteq> (close (rows rising20 ! (length (rows rising20) - 1))
            - close (rows rising20 ! (length (rows rising20) - 1 - 5)))
          / close (rows rising20 ! (length (rows rising20) - 1 - 5)) * 100"
  by code_simp

text \<open>
  Claim C3, amended.  For every series of length at least 20, the momentum that
  \<^verbatim>\<open>calculate_simple_trend\<close> compares against the thresholds equals
  (close[last] - close[last - 4]) / close[last - 4] * 100: the change across the last
  five bars, the first of which is four bars before the last.
\<close>

theorem momentum_four_bars_back:
  assumes "20 \<le> length (rows df)"
  shows "price_change_pct df
           = (close (rows df ! (length (rows df) - 1)) - close (rows df ! (length (rows df) - 1 - 4)))
             / close (rows df ! (length (rows df) - 1 - 4)) * 100"
proof -
  have 5: "5 \<le> length (rows df)" using assms by simp
  have i: "length (rows df) - 1 - 4 = length (rows df) - 5" by simp
  show ?thesis
    unfolding i by (simp add: price_change_pct_def Let_def recent_prices_last5 [OF 5])
qed

theorem momentum_four_bars_back_witness:
  "20 \<le> length (rows rising20) \<and> price_change_pct rising20 = 25"
proof -
  have l: "20 \<le> length (rows rising20)" by (simp add: length_series_of rising20_def)
  have c19: "close (rows rising20 ! (length (rows rising20) - 1)) = 20" by code_simp
  have c15: "close (rows rising20 ! (length (rows rising20) - 1 - 4)) = 16" by code_simp
  show ?thesis
    using momentum_four_bars_back [OF l] l unfolding c19 c15 by simp
qed

subsection \<open>Series shorter than the lookback\<close>

lemma round_step_round:
  "\<lbrakk>\<forall>l\<in>set (fst st). is_round_number l; \<forall>l\<in>set (snd st). is_round_number l\<rbrakk>
   \<Longrightarrow> (\<forall>l\<in>set (fst (round_step self df atr cur r st)). is_round_number l)
     \<and> (\<forall>l\<in>set (snd (round_step self df atr cur r st)). is_round_number l)"
  by (simp add: round_step_def Let_def round_level_def)

lemma add_round_numbers_round:
  "\<lbrakk>\<forall>l\<in>set (fst st). is_round_number l; \<forall>l\<in>set (snd st). is_round_number l\<rbrakk>
   \<Longrightarrow> (\<forall>l\<in>set (fst (add_round_numbers self df atr cur rs st)). is_round_number l)
     \<and> (\<forall>l\<in>set (snd (add_round_numbers self df atr cur rs st)). is_round_number l)"
proof (induction rs arbitrary: st)
  case Nil
  then show ?case by (simp add: add_round_numbers_def)
next
  case (Cons r rs)
  have step: "add_round_numbers self df atr cur (r # rs) st
                = add_round_numbers self df atr cur rs (round_step self df atr cur r st)"
    by (simp add: add_round_numbers_def)
  have inv: "(\<forall>l\<in>set (fst (round_step self df atr cur r st)). is_round_number l)
             \<and> (\<forall>l\<in>set (snd (round_step self df atr cur r st)). is_round_number l)"
    using Cons.prems by (rule round_step_round)
  show ?case
    unfolding step using inv by (intro Cons.IH) simp_all
qed

lemma set_py_take: "set (py_take n xs) \<subseteq> set xs"
  by (auto simp: py_take_def dest: in_set_takeD)

lemma detect_sr_levels_subset:
  "set (fst (detect_sr_levels self df ms mr)) \<subseteq> set (fst (sr_candidates self df))
   \<and> set (snd (detect_sr_levels self df ms mr)) \<subseteq> set (snd (sr_candidates self df))"
  using set_py_take [of ms "sort_key (\<lambda>x. (current_close df - price x, - touches x)) (fst (sr_candidates self df))"]
    set_py_take [of mr "sort_key (\<lambda>x. (price x - current_close df, - touches x)) (snd (sr_candidates self df))"]
  by (simp add: detect_sr_levels_def Let_def)

text \<open>
  Claim C10.  For a series of at least 50 bars but fewer than \<open>lookback_bars\<close>,
  \<^verbatim>\<open>find_swing_points\<close> returns two empty lists, and so every level that \<^verbatim>\<open>detect_sr_levels\<close>
  returns is a round-number level; a level derived from swings needs at least
  \<open>lookback_bars\<close> bars.
\<close>

theorem short_series_round_only:
  assumes "50 \<le> length (rows df)" and "int (length (rows df)) < lookback_bars self"
  shows "find_swing_points self df = ([], [])
         \<and> (\<forall>l\<in>set (fst (detect_sr_levels self df max_support max_resistance))
                  \<union> set (snd (detect_sr_levels self df max_support max_resistance)).
               is_round_number l)"
proof -
  have sw: "find_swing_points self df = ([], [])"
    using assms(2) by (simp add: find_swing_points_def)
  have c: "sr_candidates self df
             = add_round_numbers self df (sr_atr df) (current_close df)
                 (sr_round_numbers self df) ([], [])"
    by (simp add: sr_candidates_def sw swing_resistance_def swing_support_def Let_def)
  have "(\<forall>l\<in>set (fst (sr_candidates self df)). is_round_number l)
        \<and> (\<forall>l\<in>set (snd (sr_candidates self df)). is_round_number l)"
    unfolding c by (rule add_round_numbers_round) simp_all
  then show ?thesis
    using sw detect_sr_levels_subset [of self df max_support max_resistance] by blast
qed

theorem short_series_round_only_witness:
  "50 \<le> length (rows flat_frame)
   \<and> int (length (rows flat_frame)) < lookback_bars default_detector
   \<and> find_swing_points default_detector flat_frame = ([], [])
   \<and> list_all is_round_number (fst (detect_sr_levels default_detector flat_frame 3 3)
                                 @ snd (detect_sr_levels default_detector flat_frame 3 3))"
proof -
  have a: "50 \<le> length (rows flat_frame)" by (simp add: flat_frame_def length_series_of)
  have b: "int (length (rows flat_frame)) < lookback_bars default_detector"
    by (simp add: flat_frame_def length_series_of default_detector_def)
  show ?thesis
    using short_series_round_only [OF a b, of 3 3] a b by (simp add: list_all_iff ball_Un)
qed

subsection \<open>Trend label and strength\<close>

text \<open>An exponential average of positive prices is positive, for a span of at least 1.\<close>

lemma ewm_rec_pos:
  "\<lbrakk>0 \<le> \<alpha>; \<alpha> \<le> 1; 0 < prev; \<forall>x\<in>set xs. 0 < x\<rbrakk> \<Longrightarrow> \<forall>e\<in>set (ewm_rec \<alpha> prev xs). 0 < e"
proof (induction xs arbitrary: prev)
  case Nil
  then show ?case by simp
next
  case (Cons x xs)
  have x: "0 < x" using Cons.prems(4) by simp
  have "0 \<le> (1 - \<alpha>) * prev" using Cons.prems by simp
  moreover have "0 \<le> \<alpha> * x" using Cons.prems(1) x by simp
  moreover have "0 < (1 - \<alpha>) * prev \<or> 0 < \<alpha> * x"
  proof (cases "\<alpha> = 1")
    case True
    then show ?thesis using x by simp
  next
    case False
    then have "0 < 1 - \<alpha>" using Cons.prems(2) by simp
    then show ?thesis using Cons.prems(3) by simp
  qed
  ultimately have e: "0 < (1 - \<alpha>) * prev + \<alpha> * x" by linarith
  have "\<forall>e\<in>set (ewm_rec \<alpha> ((1 - \<alpha>) * prev + \<alpha> * x) xs). 0 < e"
    using Cons.prems by (intro Cons.IH [OF _ _ e]) simp_all
  then show ?case using e by simp
qed

lemma ewm_mean_last_pos:
  assumes "xs \<noteq> []" and "\<forall>x\<in>set xs. 0 < x" and "1 \<le> n"
  shows "0 < last (ewm_mean n xs)"
proof -
  obtain x rest where xs: "xs = x # rest" using assms(1) by (cases xs) auto
  have a: "0 \<le> 2 / (n + 1)" using assms(3) by simp
  have b: "2 / (n + 1) \<le> 1" using assms(3) by simp
  have "\<forall>e\<in>set (ewm_rec (2 / (n + 1)) x rest). 0 < e"
    using assms(2) xs a b by (intro ewm_rec_pos) simp_all
  then have "\<forall>e\<in>set (ewm_mean n xs). 0 < e"
    using assms(2) xs by (simp add: ewm_mean_def)
  moreover have "ewm_mean n xs \<noteq> []" by (simp add: xs ewm_mean_def)
  ultimately show ?thesis using last_in_set by blast
qed


lemma price_change_pct_extra: "price_change_pct (df\<lparr>extra := e\<rparr>) = price_change_pct df"
  by (simp add: price_change_pct_def recent_prices_def)

lemma trend_result_unfold:
  assumes "20 \<le> length (rows df)"
  shows "fst (calculate_simple_trend df)
         = trend_decision (close (last (rows df))) (last (ewm_mean 3 (map close (rows df))))
             (last (ewm_mean 8 (map close (rows df)))) (last (ewm_mean 20 (map close (rows df))))
             (price_change_pct df)"
  using assms
  by (simp add: calculate_simple_trend_def Let_def price_change_pct_extra)

lemma trend_decision_label:
  "fst (trend_decision c e3 e8 e20 pct) \<in> {''UPTREND'', ''DOWNTREND'', ''SIDEWAYS'', ''NEUTRAL''}"
  by (simp add: trend_decision_def Let_def)

lemma trend_decision_le: "snd (trend_decision c e3 e8 e20 pct) \<le> 100"
  by (simp add: trend_decision_def Let_def)

lemma trend_decision_nonneg:
  assumes "0 < e20"
  shows "0 \<le> snd (trend_decision c e3 e8 e20 pct)"
proof -
  have q: "0 \<le> (c - e20) / e20" if "e20 < c"
    using assms that by simp
  have up: "0 \<le> ((c - e20) / e20) * 100" if "e20 < c"
    using q [OF that] by (rule mult_nonneg_nonneg) simp
  have up7: "0 \<le> ((c - e20) / e20) * 100 * (7 / 10)" if "e20 < c"
    using up [OF that] by (rule mult_nonneg_nonneg) simp
  have dn: "0 \<le> \<bar>(e20 - c) / e20\<bar> * 100 * (7 / 10)"
    by (intro mult_nonneg_nonneg) simp_all
  have a: "0 \<le> \<bar>(e20 - c) / e20\<bar> * 100" "0 \<le> \<bar>(c - e20) / e20\<bar> * 100"
    by (intro mult_nonneg_nonneg; simp)+
  show ?thesis
    unfolding trend_decision_def Let_def
    using up up7 dn a
    by (simp only: snd_conv fst_conv min_def split: if_splits) auto
qed

text \<open>
  Claim C2.  For every series of at least 20 bars with positive closes,
  \<^verbatim>\<open>calculate_simple_trend\<close> returns a label among UPTREND, DOWNTREND, SIDEWAYS and NEUTRAL
  and a strength between 0 and 100.  Ascending timestamps are not needed for it.
\<close>

theorem trend_label_and_strength:
  assumes "20 \<le> length (rows df)" and "\<forall>b\<in>set (rows df). 0 < close b"
  shows "fst (fst (calculate_simple_trend df)) \<in> {''UPTREND'', ''DOWNTREND'', ''SIDEWAYS'', ''NEUTRAL''}
         \<and> 0 \<le> snd (fst (calculate_simple_trend df))
         \<and> snd (fst (calculate_simple_trend df)) \<le> 100"
proof -
  have ne: "map close (rows df) \<noteq> []" using assms(1) by auto
  have pos: "\<forall>x\<in>set (map close (rows df)). 0 < x" using assms(2) by simp
  have e20: "0 < last (ewm_mean 20 (map close (rows df)))"
    by (rule ewm_mean_last_pos [OF ne pos]) simp
  show ?thesis
    unfolding trend_result_unfold [OF assms(1)]
    using trend_decision_label trend_decision_le trend_decision_nonneg [OF e20] by simp
qed

theorem trend_label_and_strength_witness:
  "20 \<le> length (rows rising20) \<and> list_all (\<lambda>b. 0 < close b) (rows rising20)
   \<and> fst (fst (calculate_simple_trend rising20))
        \<in> {''UPTREND'', ''DOWNTREND'', ''SIDEWAYS'', ''NEUTRAL''}
   \<and> 0 \<le> snd (fst (calculate_simple_trend rising20))
   \<and> snd (fst (calculate_simple_trend rising20)) \<le> 100"
proof -
  have l: "20 \<le> length (rows rising20)" by (simp add: length_series_of rising20_def)
  have p: "list_all (\<lambda>b. 0 < close b) (rows rising20)" by code_simp
  then have p': "\<forall>b\<in>set (rows rising20). 0 < close b" by (simp add: list_all_iff)
  show ?thesis
    using trend_label_and_strength [OF l p'] l p by simp
qed

subsection \<open>Effect on the caller's frame\<close>

text \<open>
  Claim C8 as stated fails for \<^verbatim>\<open>calculate_simple_trend\<close>: on a series of 20 bars the call
  assigns the column \<^verbatim>\<open>ema_3\<close> (and \<^verbatim>\<open>ema_8\<close>, \<^verbatim>\<open>ema_20\<close>) on the frame it was given, so the
  frame after the call is not the frame before it.
\<close>

theorem trend_mutates_frame_counterexample:
  "snd (calculate_simple_trend rising20) \<noteq> rising20"
proof
  assume e: "snd (calculate_simple_trend rising20) = rising20"
  have l: "\<not> length (rows rising20) < 20" by (simp add: length_series_of rising20_def)
  have "extra (snd (calculate_simple_trend rising20)) ''ema_3'' \<noteq> None"
    using l by (simp add: calculate_simple_trend_def Let_def)
  moreover have "extra rising20 ''ema_3'' = None"
    by (simp add: rising20_def series_of_def)
  ultimately show False using e by simp
qed

text \<open>
  Claim C8, amended.  \<^verbatim>\<open>detect_sr_levels\<close> leaves the input frame unchanged.
  \<^verbatim>\<open>calculate_simple_trend\<close> leaves it unchanged when the series has fewer than 20 bars;
  it never changes the rows or any column other than \<^verbatim>\<open>ema_3\<close>, \<^verbatim>\<open>ema_8\<close> and \<^verbatim>\<open>ema_20\<close>; and
  for a series of at least 20 bars it sets these three columns on the input frame to the
  exponential averages of the closes with spans 3, 8 and 20.
\<close>

theorem frame_effects:
  "snd (call_detect_sr_levels self df max_support max_resistance) = df
   \<and> (length (rows df) < 20 \<longrightarrow> snd (calculate_simple_trend df) = df)
   \<and> rows (snd (calculate_simple_trend df)) = rows df
   \<and> (\<forall>c. c \<notin> {''ema_3'', ''ema_8'', ''ema_20''}
          \<longrightarrow> extra (snd (calculate_simple_trend df)) c = extra df c)
   \<and> (20 \<le> length (rows df) \<longrightarrow>
        extra (snd (calculate_simple_trend df)) ''ema_3'' = Some (ewm_mean 3 (map close (rows df)))
        \<and> extra (snd (calculate_simple_trend df)) ''ema_8'' = Some (ewm_mean 8 (map close (rows df)))
        \<and> extra (snd (calculate_simple_trend df)) ''ema_20'' = Some (ewm_mean 20 (map close (rows df))))"
  by (simp add: call_detect_sr_levels_def calculate_simple_trend_def Let_def)

theorem frame_effects_witness:
  "length (rows short10) < 20 \<and> snd (calculate_simple_trend short10) = short10
   \<and> 20 \<le> length (rows rising20)
   \<and> ''volume_ma'' \<notin> {''ema_3'', ''ema_8'', ''ema_20''}
   \<and> extra (snd (calculate_simple_trend rising20)) ''volume_ma'' = extra rising20 ''volume_ma''
   \<and> rows (snd (calculate_simple_trend rising20)) = rows rising20
   \<and> extra (snd (calculate_simple_trend rising20)) ''ema_3''
       = Some (ewm_mean 3 (map close (rows rising20)))
   \<and> snd (call_detect_sr_levels default_detector rising20 3 3) = rising20"
proof -
  have s: "length (rows short10) < 20" by (simp add: length_series_of short10_def)
  have l: "20 \<le> length (rows rising20)" by (simp add: length_series_of rising20_def)
  have v: "''volume_ma'' \<notin> {''ema_3'', ''ema_8'', ''ema_20''}" by simp
  show ?thesis
    using frame_effects [of default_detector short10 3 3]
      frame_effects [of default_detector rising20 3 3] s l v
    by simp
qed

subsection \<open>Coarser clustering\<close>

text \<open>
  The finished clusters only grow in number, so the count of the result is the count of
  the clusters closed on the way plus the last one.
\<close>

lemma cluster_loop_length_shift:
  "length (fst (cluster_loop t xs (cs, cur))) = length cs + closed_clusters t cur xs"
proof (induction xs arbitrary: cs cur)
  case Nil
  show ?case by (simp add: closed_clusters_def)
next
  case (Cons x xs)
  show ?case
  proof (cases "\<bar>sw_price x - np_mean (map sw_price cur)\<bar> \<le> t")
    case True
    then show ?thesis
      using Cons.IH [of cs "cur @ [x]"] by (simp add: closed_clusters_def)
  next
    case False
    then show ?thesis
      using Cons.IH [of "cs @ [merge_cluster cur]" "[x]"] Cons.IH [of "[merge_cluster cur]" "[x]"]
      by (simp add: closed_clusters_def)
  qed
qed

lemma closed_clusters_Nil: "closed_clusters t cur [] = 0"
  by (simp add: closed_clusters_def)

lemma closed_clusters_Cons:
  "closed_clusters t cur (x # xs) =
     (if \<bar>sw_price x - np_mean (map sw_price cur)\<bar> \<le> t
      then closed_clusters t (cur @ [x]) xs
      else 1 + closed_clusters t [x] xs)"
  using cluster_loop_length_shift [of t xs "[merge_cluster cur]" "[x]"]
  by (simp add: closed_clusters_def)

lemma cluster_loop_current_nonempty:
  "cur \<noteq> [] \<Longrightarrow> snd (cluster_loop t xs (cs, cur)) \<noteq> []"
  by (induction xs arbitrary: cs cur) (simp_all add: Let_def)

lemma length_cluster_levels:
  "length (cluster_levels self levels atr) =
     (case sort_key sw_price levels of
        [] \<Rightarrow> 0
      | first # rest \<Rightarrow> closed_clusters (atr * cluster_threshold_atr self) [first] rest + 1)"
proof (cases "sort_key sw_price levels")
  case Nil
  then show ?thesis by (simp add: cluster_levels_def)
next
  case (Cons first rest)
  have ne: "snd (cluster_loop (atr * cluster_threshold_atr self) rest ([], [first])) \<noteq> []"
    by (rule cluster_loop_current_nonempty) simp
  show ?thesis
    using ne by (simp add: cluster_levels_def Cons Let_def closed_clusters_def)
qed

text \<open>
  The mean of a sorted run lies between its ends, and dropping a prefix of a sorted run
  does not lower the mean.
\<close>

lemma np_mean_le:
  assumes "xs \<noteq> []" and "\<forall>y\<in>set xs. y \<le> b"
  shows "np_mean xs \<le> b"
proof -
  have "sum_list xs \<le> real (length xs) * b"
    using assms(2) by (induction xs) (auto simp: algebra_simps)
  moreover have "0 < real (length xs)" using assms(1) by simp
  ultimately show ?thesis
    unfolding np_mean_def by (simp add: pos_divide_le_eq mult.commute)
qed

lemma np_mean_ge:
  assumes "xs \<noteq> []" and "\<forall>y\<in>set xs. b \<le> y"
  shows "b \<le> np_mean xs"
proof -
  have "real (length xs) * b \<le> sum_list xs"
    using assms(2) by (induction xs) (auto simp: algebra_simps)
  moreover have "0 < real (length xs)" using assms(1) by simp
  ultimately show ?thesis
    unfolding np_mean_def by (simp add: pos_le_divide_eq mult.commute)
qed

lemma sum_list_le_bound: "\<forall>y\<in>set xs. y \<le> b \<Longrightarrow> sum_list xs \<le> real (length xs) * b"
  by (induction xs) (auto simp: algebra_simps)

lemma np_mean_suffix:
  assumes "sorted (pre @ ys)" and "ys \<noteq> []"
  shows "np_mean (pre @ ys) \<le> np_mean ys"
proof -
  let ?\<mu> = "np_mean ys"
  have n: "0 < real (length ys)" using assms(2) by simp
  have hd_le: "\<forall>y\<in>set ys. hd ys \<le> y"
    using assms by (cases ys) (auto simp: sorted_append)
  have "hd ys \<le> ?\<mu>" by (rule np_mean_ge [OF assms(2) hd_le])
  moreover have "\<forall>y\<in>set pre. y \<le> hd ys"
    using assms by (cases ys) (auto simp: sorted_append)
  ultimately have "\<forall>y\<in>set pre. y \<le> ?\<mu>" by fastforce
  then have a: "sum_list pre \<le> real (length pre) * ?\<mu>" by (rule sum_list_le_bound)
  have b: "sum_list ys = real (length ys) * ?\<mu>"
    using n by (simp add: np_mean_def)
  have "sum_list (pre @ ys) \<le> real (length (pre @ ys)) * ?\<mu>"
    using a b by (simp add: algebra_simps)
  moreover have "0 < real (length (pre @ ys))"
  proof -
    have "0 < length (pre @ ys)" using assms(2) by simp
    then show ?thesis by (simp only: of_nat_0_less_iff)
  qed
  ultimately show ?thesis
    unfolding np_mean_def [of "pre @ ys"] by (simp only: pos_divide_le_eq mult.commute)
qed

text \<open>
  A level that joins a cluster under the smaller tolerance joins every later-started
  cluster under the larger one.
\<close>

lemma joins_wider:
  assumes srt: "sorted (map sw_price (cur1 @ [x]))"
    and suf: "suffix cur2 cur1" and ne: "cur2 \<noteq> []"
    and j: "\<bar>sw_price x - np_mean (map sw_price cur1)\<bar> \<le> t1" and t: "t1 \<le> t2"
  shows "\<bar>sw_price x - np_mean (map sw_price cur2)\<bar> \<le> t2"
proof -
  obtain pre where c1: "cur1 = pre @ cur2" using suf by (auto simp: suffix_def)
  have s1: "sorted (map sw_price pre @ map sw_price cur2)"
    using srt by (simp add: c1 sorted_append)
  have m: "np_mean (map sw_price cur1) \<le> np_mean (map sw_price cur2)"
    using np_mean_suffix [OF s1] ne by (simp add: c1)
  have "\<forall>y\<in>set (map sw_price cur2). y \<le> sw_price x"
    using srt by (auto simp: c1 sorted_append)
  then have u: "np_mean (map sw_price cur2) \<le> sw_price x"
    using ne by (intro np_mean_le) simp_all
  show ?thesis using m u j t by linarith
qed

text \<open>
  Walking the same sorted levels with two tolerances: the wider run never closes more
  than one cluster more than the narrower one, and no more at all while its current
  cluster started no earlier than the narrower run's.
\<close>

lemma coarsening_step:
  assumes t: "t1 \<le> t2"
  shows "\<lbrakk>sorted (map sw_price (cur1 @ xs)); cur1 \<noteq> []; cur2 \<noteq> []\<rbrakk>
         \<Longrightarrow> closed_clusters t2 cur2 xs \<le> 1 + closed_clusters t1 cur1 xs
             \<and> (suffix cur2 cur1 \<longrightarrow> closed_clusters t2 cur2 xs \<le> closed_clusters t1 cur1 xs)"
proof (induction xs arbitrary: cur1 cur2)
  case Nil
  show ?case by (simp add: closed_clusters_Nil)
next
  case (Cons x xs)
  let ?j1 = "\<bar>sw_price x - np_mean (map sw_price cur1)\<bar> \<le> t1"
  let ?j2 = "\<bar>sw_price x - np_mean (map sw_price cur2)\<bar> \<le> t2"
  have s_app: "sorted (map sw_price ((cur1 @ [x]) @ xs))" using Cons.prems(1) by simp
  have s_x: "sorted (map sw_price ([x] @ xs))"
    using Cons.prems(1) by (simp add: sorted_append)
  have s_1x: "sorted (map sw_price (cur1 @ [x]))"
    using Cons.prems(1) by (simp add: sorted_append)
  note both = Cons.IH [OF s_app, of "cur2 @ [x]"]
  note join1 = Cons.IH [OF s_app, of "[x]"]
  note join2 = Cons.IH [OF s_x, of "cur2 @ [x]"]
  note none = Cons.IH [OF s_x, of "[x]"]
  have imp: "?j2" if "?j1" "suffix cur2 cur1"
    using joins_wider [OF s_1x that(2) Cons.prems(3) that(1) t] .
  show ?case
  proof (cases ?j1)
    case j1: True
    show ?thesis
    proof (cases ?j2)
      case True
      then show ?thesis using j1 both by (simp add: closed_clusters_Cons)
    next
      case False
      then show ?thesis using j1 join1 imp by (auto simp: closed_clusters_Cons)
    qed
  next
    case j1: False
    show ?thesis
    proof (cases ?j2)
      case True
      then show ?thesis using j1 join2 by (simp add: closed_clusters_Cons)
    next
      case False
      then show ?thesis using j1 none by (simp add: closed_clusters_Cons)
    qed
  qed
qed

text \<open>
  Claim C6.  For a fixed list of raw levels and a fixed ATR value, raising the clustering
  multiplier never raises the number of clusters that \<^verbatim>\<open>cluster_levels\<close> returns.  An ATR is
  a mean of true ranges and so not negative; the tolerance is the product of the two
  (prices and means are real numbers here).
\<close>

theorem cluster_levels_coarsening:
  assumes "0 \<le> atr" and "m1 \<le> m2"
  shows "length (cluster_levels (self\<lparr>cluster_threshold_atr := m2\<rparr>) levels atr)
         \<le> length (cluster_levels (self\<lparr>cluster_threshold_atr := m1\<rparr>) levels atr)"
proof (cases "sort_key sw_price levels")
  case Nil
  then show ?thesis by (simp add: length_cluster_levels)
next
  case (Cons first rest)
  have t: "atr * m1 \<le> atr * m2" using assms by (rule mult_left_mono [rotated])
  have "sorted (map sw_price (sort_key sw_price levels))" by (rule sorted_sort_key)
  then have s: "sorted (map sw_price ([first] @ rest))" by (simp add: Cons)
  have "closed_clusters (atr * m2) [first] rest \<le> closed_clusters (atr * m1) [first] rest"
    using coarsening_step [OF t s, of "[first]"] by simp
  then show ?thesis by (simp add: length_cluster_levels Cons)
qed


theorem cluster_levels_coarsening_witness:
  "(0::real) \<le> 2 \<and> (1 / 4 :: real) \<le> 1 / 2
   \<and> length (cluster_levels (default_detector\<lparr>cluster_threshold_atr := 1 / 2\<rparr>) three_levels 2) = 2
   \<and> length (cluster_levels (default_detector\<lparr>cluster_threshold_atr := 1 / 4\<rparr>) three_levels 2) = 3
   \<and> length (cluster_levels (default_detector\<lparr>cluster_threshold_atr := 1 / 2\<rparr>) three_levels 2)
       \<le> length (cluster_levels (default_detector\<lparr>cluster_threshold_atr := 1 / 4\<rparr>) three_levels 2)"
proof -
  have a: "(0::real) \<le> 2" by simp
  have m: "(1 / 4 :: real) \<le> 1 / 2" by simp
  have c2: "length (cluster_levels (default_detector\<lparr>cluster_threshold_atr := 1 / 2\<rparr>) three_levels 2) = 2"
    by code_simp
  have c3: "length (cluster_levels (default_detector\<lparr>cluster_threshold_atr := 1 / 4\<rparr>) three_levels 2) = 3"
    by code_simp
  show ?thesis
    using cluster_levels_coarsening [OF a m, of default_detector three_levels] a m c2 c3 by simp
qed

subsection \<open>The volatility passed on\<close>

text \<open>
  With at least 14 rows the last rolling mean is defined, so \<^verbatim>\<open>detect_sr_levels\<close> uses the
  mean of the last 14 true ranges; with at least 15 rows each of them is a maximum over
  absolute values, so the volatility is not negative.
\<close>

lemma length_shift1: "length (shift1 xs) = length xs"
  by (cases xs) (simp_all add: shift1_def)

lemma last_rolling_mean:
  "xs \<noteq> [] \<Longrightarrow> last (rolling_mean p xs) =
     (if length xs < p then None else Some (sum_list (take p (drop (length xs - p) xs)) / real p))"
  by (auto simp: rolling_mean_def last_map)

lemma sr_atr_14:
  assumes "14 \<le> length (rows df)"
  shows "sr_atr df
         = sum_list (take 14 (drop (length (rows df) - 14)
                       (map2 true_range (rows df) (shift1 (map close (rows df)))))) / 14"
proof -
  let ?tr = "map2 true_range (rows df) (shift1 (map close (rows df)))"
  have len: "length ?tr = length (rows df)" by (simp add: length_shift1)
  then have ne: "?tr \<noteq> []" using assms by auto
  have "calculate_atr df 14 = rolling_mean 14 ?tr"
    by (simp add: calculate_atr_def)
  then show ?thesis using assms ne len
    by (simp add: sr_atr_def last_rolling_mean)
qed

lemma true_range_nonneg: "0 \<le> true_range b (Some c)"
  by (simp add: true_range_def le_max_iff_disj)

lemma shifted_ranges_nonneg:
  "\<forall>t\<in>set (drop 1 (map2 true_range bs (shift1 cs))). 0 \<le> t"
proof (cases cs)
  case Nil
  then show ?thesis by (simp add: shift1_def)
next
  case (Cons c cs')
  show ?thesis
  proof (cases bs)
    case Nil
    then show ?thesis by simp
  next
    case (Cons b bs')
    have "drop 1 (map2 true_range bs (shift1 cs))
            = map2 true_range bs' (map Some (butlast cs))"
      using \<open>cs = c # cs'\<close> Cons by (simp add: shift1_def)
    then show ?thesis
      using true_range_nonneg by (auto simp: set_zip)
  qed
qed


lemma sr_atr_nonneg:
  assumes "15 \<le> length (rows df)"
  shows "0 \<le> sr_atr df"
proof -
  let ?tr = "map2 true_range (rows df) (shift1 (map close (rows df)))"
  have a: "sr_atr df = sum_list (take 14 (drop (length (rows df) - 14) ?tr)) / 14"
    using assms by (intro sr_atr_14) simp
  have "set (take 14 (drop (length (rows df) - 14) ?tr)) \<subseteq> set (drop (length (rows df) - 14) ?tr)"
    by (rule set_take_subset)
  also have "\<dots> \<subseteq> set (drop 1 ?tr)"
    using assms by (intro set_drop_subset_set_drop) simp
  finally have "\<forall>t\<in>set (take 14 (drop (length (rows df) - 14) ?tr)). 0 \<le> t"
    using shifted_ranges_nonneg [of "rows df" "map close (rows df)"] by blast
  then have "0 \<le> sum_list (take 14 (drop (length (rows df) - 14) ?tr))"
    by (intro sum_list_nonneg) simp
  then show ?thesis unfolding a by simp
qed

subsection \<open>A support level at the current close\<close>

lemma flat_atr: "sr_atr flat_frame = 0"
  by (subst sr_atr_14; code_simp)

text \<open>
  Claim C1 on the code.  On 50 bars that all trade at 100 the round number 100 has 100
  touches and is not above the close of 100, so the loop over the round numbers files it
  under support: the returned support level has the price of the last close, not a
  price below it.
\<close>

theorem support_at_close:
  "detect_sr_levels default_detector flat_frame 3 3
     = ([\<lparr>price = 100, level_type = ''support'', touches = 100, first_seen = Some 0,
          last_seen = Some 49, is_round_number = True\<rparr>], [])
   \<and> current_close flat_frame = 100"
proof -
  have "detect_sr_levels default_detector flat_frame 3 3
     = ([\<lparr>price = 100, level_type = ''support'', touches = 100, first_seen = Some 0,
          last_seen = Some 49, is_round_number = True\<rparr>], [])"
    unfolding detect_sr_levels_def sr_candidates_def flat_atr by code_simp
  moreover have "current_close flat_frame = 100" by code_simp
  ultimately show ?thesis by simp
qed


subsection \<open>Which levels are considered for which side\<close>

lemma swing_atr: "sr_atr swing_frame = 12 / 7"
  by (subst sr_atr_14; code_simp)

lemma swing_frame_swings:
  "find_swing_points default_detector swing_frame
     = ([\<lparr>sw_index = 20, sw_price = 12, sw_date = 20\<rparr>,
         \<lparr>sw_index = 40, sw_price = 12, sw_date = 40\<rparr>], [])"
  by code_simp

lemma swing_frame_cluster:
  "cluster_levels default_detector
     [\<lparr>sw_index = 20, sw_price = 12, sw_date = 20\<rparr>,
      \<lparr>sw_index = 40, sw_price = 12, sw_date = 40\<rparr>] (12 / 7)
   = [\<lparr>m_price = 12, m_touches = 2, m_first_seen = Some 20, m_last_seen = Some 40\<rparr>]"
  by code_simp

lemma swing_frame_candidates:
  "sr_candidates default_detector swing_frame
     = ([\<lparr>price = 10, level_type = ''support'', touches = 97, first_seen = Some 0,
          last_seen = Some 99, is_round_number = True\<rparr>], [])"
  unfolding sr_candidates_def swing_frame_swings swing_atr by code_simp

lemma swing_frame_close: "current_close swing_frame = 20"
  by code_simp

text \<open>
  Claim C5 as stated fails.  On \<open>swing_frame\<close> the two swing highs at 12 form a cluster
  with two touches, below the close of 20; the only support candidate is the round
  number 10, and the detector returns that one level although three are allowed.  A
  level derived from swing highs is never considered for support.
\<close>

theorem swing_high_below_close_counterexample:
  "cluster_levels default_detector (fst (find_swing_points default_detector swing_frame))
       (sr_atr swing_frame)
     = [\<lparr>m_price = 12, m_touches = 2, m_first_seen = Some 20, m_last_seen = Some 40\<rparr>]
   \<and> (12::real) < current_close swing_frame
   \<and> min_touches default_detector \<le> 2
   \<and> sr_candidates default_detector swing_frame
       = ([\<lparr>price = 10, level_type = ''support'', touches = 97, first_seen = Some 0,
            last_seen = Some 99, is_round_number = True\<rparr>], [])
   \<and> detect_sr_levels default_detector swing_frame 3 3
       = ([\<lparr>price = 10, level_type = ''support'', touches = 97, first_seen = Some 0,
            last_seen = Some 99, is_round_number = True\<rparr>], [])"
proof -
  have l: "\<not> length (rows swing_frame) < 50" by (simp add: swing_frame_def)
  have d: "detect_sr_levels default_detector swing_frame 3 3
       = ([\<lparr>price = 10, level_type = ''support'', touches = 97, first_seen = Some 0,
            last_seen = Some 99, is_round_number = True\<rparr>], [])"
    using l by (simp add: detect_sr_levels_def swing_frame_candidates py_take_def)
  have c: "cluster_levels default_detector (fst (find_swing_points default_detector swing_frame))
       (sr_atr swing_frame)
     = [\<lparr>m_price = 12, m_touches = 2, m_first_seen = Some 20, m_last_seen = Some 40\<rparr>]"
    by (simp add: swing_frame_swings swing_atr swing_frame_cluster)
  have p: "(12::real) < current_close swing_frame" by (simp add: swing_frame_close)
  have m: "min_touches default_detector \<le> 2" by (simp add: default_detector_def)
  show ?thesis
    by (intro conjI) (rule c p m swing_frame_candidates d)+
qed

text \<open>The round-number loop adds, in order, the round levels with enough touches to each side.\<close>

lemma add_round_numbers_split:
  "add_round_numbers self df atr cur rs (s, t) =
     (s @ map (\<lambda>r. round_level df cur r (count_touches self df (real_of_int r) atr))
            (filter (\<lambda>r. min_touches self \<le> count_touches self df (real_of_int r) atr
                          \<and> \<not> real_of_int r > cur) rs),
      t @ map (\<lambda>r. round_level df cur r (count_touches self df (real_of_int r) atr))
            (filter (\<lambda>r. min_touches self \<le> count_touches self df (real_of_int r) atr
                          \<and> real_of_int r > cur) rs))"
proof (induction rs arbitrary: s t)
  case Nil
  show ?case by (simp add: add_round_numbers_def)
next
  case (Cons r rs)
  have step: "add_round_numbers self df atr cur (r # rs) (s, t)
                = add_round_numbers self df atr cur rs (round_step self df atr cur r (s, t))"
    by (simp add: add_round_numbers_def)
  show ?case
    unfolding step by (simp add: round_step_def Let_def Cons.IH)
qed

lemma cluster_levels_Nil: "cluster_levels self [] atr = []"
  by (simp add: cluster_levels_def)

lemma swing_support_eq:
  "swing_support self lows atr cur =
     map (level_of ''support'')
       (filter (\<lambda>c. m_price c < cur \<and> min_touches self \<le> m_touches c)
          (cluster_levels self lows atr))"
  by (simp add: swing_support_def cluster_levels_Nil)

lemma swing_resistance_eq:
  "swing_resistance self highs atr cur =
     map (level_of ''resistance'')
       (filter (\<lambda>c. m_price c > cur \<and> min_touches self \<le> m_touches c)
          (cluster_levels self highs atr))"
  by (simp add: swing_resistance_def cluster_levels_Nil)

lemma sr_candidates_eq:
  "sr_candidates self df =
     (swing_support self (snd (find_swing_points self df)) (sr_atr df) (current_close df)
        @ map (\<lambda>r. round_level df (current_close df) r (count_touches self df (real_of_int r) (sr_atr df)))
            (filter (\<lambda>r. min_touches self \<le> count_touches self df (real_of_int r) (sr_atr df)
                          \<and> \<not> real_of_int r > current_close df) (sr_round_numbers self df)),
      swing_resistance self (fst (find_swing_points self df)) (sr_atr df) (current_close df)
        @ map (\<lambda>r. round_level df (current_close df) r (count_touches self df (real_of_int r) (sr_atr df)))
            (filter (\<lambda>r. min_touches self \<le> count_touches self df (real_of_int r) (sr_atr df)
                          \<and> real_of_int r > current_close df) (sr_round_numbers self df)))"
  by (simp add: sr_candidates_def Let_def add_round_numbers_split)

lemma inj_level_of: "inj (level_of ty)"
proof (rule injI)
  fix c c' :: merged
  assume "level_of ty c = level_of ty c'"
  then show "c = c'" by (cases c, cases c') (simp add: level_of_def)
qed

lemma level_of_not_round_level: "level_of ty c \<noteq> round_level df cur r n"
proof
  assume "level_of ty c = round_level df cur r n"
  then have "is_round_number (level_of ty c) = is_round_number (round_level df cur r n)"
    by simp
  then show False by (simp add: level_of_def round_level_def)
qed

lemma set_support_candidates:
  "set (fst (sr_candidates self df)) =
     level_of ''support'' `
       {c \<in> set (cluster_levels self (snd (find_swing_points self df)) (sr_atr df)).
          m_price c < current_close df \<and> min_touches self \<le> m_touches c}
     \<union> (\<lambda>r. round_level df (current_close df) r (count_touches self df (real_of_int r) (sr_atr df))) `
       {r \<in> set (sr_round_numbers self df).
          min_touches self \<le> count_touches self df (real_of_int r) (sr_atr df)
          \<and> \<not> real_of_int r > current_close df}"
  by (auto simp: sr_candidates_eq swing_support_eq)

lemma set_resistance_candidates:
  "set (snd (sr_candidates self df)) =
     level_of ''resistance'' `
       {c \<in> set (cluster_levels self (fst (find_swing_points self df)) (sr_atr df)).
          m_price c > current_close df \<and> min_touches self \<le> m_touches c}
     \<union> (\<lambda>r. round_level df (current_close df) r (count_touches self df (real_of_int r) (sr_atr df))) `
       {r \<in> set (sr_round_numbers self df).
          min_touches self \<le> count_touches self df (real_of_int r) (sr_atr df)
          \<and> real_of_int r > current_close df}"
  by (auto simp: sr_candidates_eq swing_resistance_eq)

lemma level_of_mem:
  "level_of ty c \<in> level_of ty ` A \<union> (\<lambda>r. round_level df cur r (f r)) ` B \<longleftrightarrow> c \<in> A"
proof -
  have "level_of ty c \<notin> (\<lambda>r. round_level df cur r (f r)) ` B"
    using level_of_not_round_level by blast
  moreover have "level_of ty c \<in> level_of ty ` A \<longleftrightarrow> c \<in> A"
    by (rule inj_image_mem_iff [OF inj_level_of])
  ultimately show ?thesis by blast
qed

lemma not_round_mem:
  assumes "l \<in> level_of ty ` A \<union> (\<lambda>r. round_level df cur r (f r)) ` B" and "\<not> is_round_number l"
  shows "\<exists>c\<in>A. l = level_of ty c"
proof -
  have "l \<notin> (\<lambda>r. round_level df cur r (f r)) ` B"
    using assms(2) by (auto simp: round_level_def)
  then show ?thesis using assms(1) by blast
qed

text \<open>
  Claim C5, amended.  A cluster of swing lows is a support candidate exactly when its
  price is below the current close and it has at least \<open>min_touches\<close> touches; a cluster of
  swing highs is a resistance candidate exactly when its price is above the current close
  and it has at least \<open>min_touches\<close> touches.  No other swing-derived level is a candidate:
  every support candidate that is not a round number comes from a cluster of swing lows,
  every such resistance candidate from a cluster of swing highs.  A round number with at
  least \<open>min_touches\<close> touches is a resistance candidate when it is above the current close
  and a support candidate when it is below it.
\<close>

theorem candidate_sides:
  "(\<forall>c\<in>set (cluster_levels self (snd (find_swing_points self df)) (sr_atr df)).
      level_of ''support'' c \<in> set (fst (sr_candidates self df))
        \<longleftrightarrow> m_price c < current_close df \<and> min_touches self \<le> m_touches c)
   \<and> (\<forall>c\<in>set (cluster_levels self (fst (find_swing_points self df)) (sr_atr df)).
      level_of ''resistance'' c \<in> set (snd (sr_candidates self df))
        \<longleftrightarrow> m_price c > current_close df \<and> min_touches self \<le> m_touches c)
   \<and> (\<forall>l\<in>set (fst (sr_candidates self df)). \<not> is_round_number l \<longrightarrow>
        (\<exists>c\<in>set (cluster_levels self (snd (find_swing_points self df)) (sr_atr df)).
           l = level_of ''support'' c))
   \<and> (\<forall>l\<in>set (snd (sr_candidates self df)). \<not> is_round_number l \<longrightarrow>
        (\<exists>c\<in>set (cluster_levels self (fst (find_swing_points self df)) (sr_atr df)).
           l = level_of ''resistance'' c))
   \<and> (\<forall>r\<in>set (sr_round_numbers self df).
        min_touches self \<le> count_touches self df (real_of_int r) (sr_atr df) \<longrightarrow>
        (real_of_int r > current_close df \<longrightarrow>
           round_level df (current_close df) r (count_touches self df (real_of_int r) (sr_atr df))
             \<in> set (snd (sr_candidates self df)))
        \<and> (real_of_int r < current_close df \<longrightarrow>
           round_level df (current_close df) r (count_touches self df (real_of_int r) (sr_atr df))
             \<in> set (fst (sr_candidates self df))))"
proof (intro conjI)
  let ?lows = "cluster_levels self (snd (find_swing_points self df)) (sr_atr df)"
  let ?highs = "cluster_levels self (fst (find_swing_points self df)) (sr_atr df)"
  let ?cur = "current_close df"
  show "\<forall>c\<in>set ?lows. level_of ''support'' c \<in> set (fst (sr_candidates self df))
          \<longleftrightarrow> m_price c < ?cur \<and> min_touches self \<le> m_touches c"
    unfolding set_support_candidates level_of_mem by simp
  show "\<forall>c\<in>set ?highs. level_of ''resistance'' c \<in> set (snd (sr_candidates self df))
          \<longleftrightarrow> m_price c > ?cur \<and> min_touches self \<le> m_touches c"
    unfolding set_resistance_candidates level_of_mem by simp
  show "\<forall>l\<in>set (fst (sr_candidates self df)). \<not> is_round_number l \<longrightarrow>
          (\<exists>c\<in>set ?lows. l = level_of ''support'' c)"
  proof (intro ballI impI)
    fix l
    assume "l \<in> set (fst (sr_candidates self df))" and "\<not> is_round_number l"
    then have "\<exists>c\<in>{c \<in> set ?lows. m_price c < ?cur \<and> min_touches self \<le> m_touches c}.
                 l = level_of ''support'' c"
      unfolding set_support_candidates by (rule not_round_mem)
    then show "\<exists>c\<in>set ?lows. l = level_of ''support'' c" by blast
  qed
  show "\<forall>l\<in>set (snd (sr_candidates self df)). \<not> is_round_number l \<longrightarrow>
          (\<exists>c\<in>set ?highs. l = level_of ''resistance'' c)"
  proof (intro ballI impI)
    fix l
    assume "l \<in> set (snd (sr_candidates self df))" and "\<not> is_round_number l"
    then have "\<exists>c\<in>{c \<in> set ?highs. m_price c > ?cur \<and> min_touches self \<le> m_touches c}.
                 l = level_of ''resistance'' c"
      unfolding set_resistance_candidates by (rule not_round_mem)
    then show "\<exists>c\<in>set ?highs. l = level_of ''resistance'' c" by blast
  qed
  show "\<forall>r\<in>set (sr_round_numbers self df).
        min_touches self \<le> count_touches self df (real_of_int r) (sr_atr df) \<longrightarrow>
        (real_of_int r > ?cur \<longrightarrow>
           round_level df ?cur r (count_touches self df (real_of_int r) (sr_atr df))
             \<in> set (snd (sr_candidates self df)))
        \<and> (real_of_int r < ?cur \<longrightarrow>
           round_level df ?cur r (count_touches self df (real_of_int r) (sr_atr df))
             \<in> set (fst (sr_candidates self df)))"
  proof (intro ballI impI conjI)
    fix r
    assume r: "r \<in> set (sr_round_numbers self df)"
      and n: "min_touches self \<le> count_touches self df (real_of_int r) (sr_atr df)"
    {
      assume "real_of_int r > ?cur"
      then have "r \<in> {r \<in> set (sr_round_numbers self df).
                   min_touches self \<le> count_touches self df (real_of_int r) (sr_atr df)
                   \<and> real_of_int r > ?cur}"
        using r n by simp
      then show "round_level df ?cur r (count_touches self df (real_of_int r) (sr_atr df))
                   \<in> set (snd (sr_candidates self df))"
        unfolding set_resistance_candidates by blast
    }
    {
      assume "real_of_int r < ?cur"
      then have "r \<in> {r \<in> set (sr_round_numbers self df).
                   min_touches self \<le> count_touches self df (real_of_int r) (sr_atr df)
                   \<and> \<not> real_of_int r > ?cur}"
        using r n by simp
      then show "round_level df ?cur r (count_touches self df (real_of_int r) (sr_atr df))
                   \<in> set (fst (sr_candidates self df))"
        unfolding set_support_candidates by blast
    }
  qed
qed

theorem candidate_sides_witness:
  "\<lparr>m_price = 12, m_touches = 2, m_first_seen = Some 20, m_last_seen = Some 40\<rparr>
     \<in> set (cluster_levels default_detector (fst (find_swing_points default_detector swing_frame))
              (sr_atr swing_frame))
   \<and> \<not> (12::real) > current_close swing_frame
   \<and> level_of ''resistance''
         \<lparr>m_price = 12, m_touches = 2, m_first_seen = Some 20, m_last_seen = Some 40\<rparr>
       \<notin> set (snd (sr_candidates default_detector swing_frame))
   \<and> 10 \<in> set (sr_round_numbers default_detector swing_frame)
   \<and> min_touches default_detector \<le> count_touches default_detector swing_frame (real_of_int 10) (sr_atr swing_frame)
   \<and> real_of_int 10 < current_close swing_frame
   \<and> round_level swing_frame (current_close swing_frame) 10
         (count_touches default_detector swing_frame (real_of_int 10) (sr_atr swing_frame))
       \<in> set (fst (sr_candidates default_detector swing_frame))"
proof -
  let ?c = "\<lparr>m_price = 12, m_touches = 2, m_first_seen = Some 20, m_last_seen = Some 40\<rparr>"
  note cs = candidate_sides [of default_detector swing_frame]
  have mem: "?c \<in> set (cluster_levels default_detector
                         (fst (find_swing_points default_detector swing_frame)) (sr_atr swing_frame))"
    by (simp add: swing_frame_swings swing_atr swing_frame_cluster)
  have below: "\<not> (12::real) > current_close swing_frame" by (simp add: swing_frame_close)
  have "level_of ''resistance'' ?c \<in> set (snd (sr_candidates default_detector swing_frame))
          \<longleftrightarrow> m_price ?c > current_close swing_frame \<and> min_touches default_detector \<le> m_touches ?c"
    using cs mem by blast
  then have out: "level_of ''resistance'' ?c \<notin> set (snd (sr_candidates default_detector swing_frame))"
    using below by simp
  have r: "10 \<in> set (sr_round_numbers default_detector swing_frame)" by code_simp
  have n: "min_touches default_detector
             \<le> count_touches default_detector swing_frame (real_of_int 10) (sr_atr swing_frame)"
    unfolding swing_atr by code_simp
  have lt: "real_of_int 10 < current_close swing_frame" by (simp add: swing_frame_close)
  have "round_level swing_frame (current_close swing_frame) 10
         (count_touches default_detector swing_frame (real_of_int 10) (sr_atr swing_frame))
       \<in> set (fst (sr_candidates default_detector swing_frame))"
    using cs r n lt by blast
  then show ?thesis
    using mem below out r n lt by (intro conjI)
qed

subsection \<open>The sides of the returned levels\<close>

text \<open>
  What does hold for every series: each resistance candidate lies above the current
  close, each support candidate at or below it, and strictly below it unless it is a
  round number; the same holds for the levels returned, and the two returned lists share
  no level.
\<close>

lemma candidate_prices:
  "(\<forall>l\<in>set (fst (sr_candidates self df)).
      price l \<le> current_close df \<and> (\<not> is_round_number l \<longrightarrow> price l < current_close df))
   \<and> (\<forall>l\<in>set (snd (sr_candidates self df)). current_close df < price l)"
proof -
  have a: "price l \<le> current_close df \<and> (\<not> is_round_number l \<longrightarrow> price l < current_close df)"
    if "l \<in> set (fst (sr_candidates self df))" for l
    using that unfolding set_support_candidates by (auto simp: level_of_def round_level_def)
  have b: "current_close df < price l" if "l \<in> set (snd (sr_candidates self df))" for l
    using that unfolding set_resistance_candidates by (auto simp: level_of_def round_level_def)
  show ?thesis using a b by blast
qed

lemma returned_level_sides:
  "(\<forall>l\<in>set (fst (detect_sr_levels self df max_support max_resistance)).
      price l \<le> current_close df \<and> (\<not> is_round_number l \<longrightarrow> price l < current_close df))
   \<and> (\<forall>l\<in>set (snd (detect_sr_levels self df max_support max_resistance)).
      current_close df < price l)
   \<and> set (fst (detect_sr_levels self df max_support max_resistance))
       \<inter> set (snd (detect_sr_levels self df max_support max_resistance)) = {}"
proof -
  let ?r = "detect_sr_levels self df max_support max_resistance"
  have sub: "set (fst ?r) \<subseteq> set (fst (sr_candidates self df))"
    "set (snd ?r) \<subseteq> set (snd (sr_candidates self df))"
    using detect_sr_levels_subset [of self df max_support max_resistance] by simp_all
  have a: "\<forall>l\<in>set (fst ?r). price l \<le> current_close df
             \<and> (\<not> is_round_number l \<longrightarrow> price l < current_close df)"
    using sub(1) candidate_prices [of self df] by blast
  have b: "\<forall>l\<in>set (snd ?r). current_close df < price l"
    using sub(2) candidate_prices [of self df] by blast
  have "set (fst ?r) \<inter> set (snd ?r) = {}"
  proof (rule ccontr)
    assume "set (fst ?r) \<inter> set (snd ?r) \<noteq> {}"
    then obtain l where "l \<in> set (fst ?r)" and "l \<in> set (snd ?r)" by blast
    then have "price l \<le> current_close df" and "current_close df < price l"
      using a b by blast+
    then show False by simp
  qed
  then show ?thesis using a b by blast
qed

end
